theory Spec2Isabelle
  imports Main "HOL-Library.Word" "HOL-Library.Sublist"
begin

unbundle bit_operations_syntax

section \<open>Text: the string operations of \<open>make_livp.py\<close>\<close>

text \<open>
  Python text is modelled as \<^typ>\<open>string\<close>, one \<^typ>\<open>char\<close> per code point below 256.
  Integers are Python's unbounded \<open>int\<close>.
\<close>

definition digit_char :: "nat \<Rightarrow> char" where
  "digit_char d = char_of (48 + d)"

function str_nat :: "nat \<Rightarrow> string" where
  "str_nat n = (if n < 10 then [digit_char n] else str_nat (n div 10) @ [digit_char (n mod 10)])"
  by pat_completeness auto
termination
  by (relation "measure id") auto

declare str_nat.simps [simp del]

text \<open>\<open>str(i)\<close>, which is also what \<open>f"{i}"\<close> interpolates.\<close>

definition str_int :: "int \<Rightarrow> string" where
  "str_int i = (if i < 0 then CHR ''-'' # str_nat (nat (- i)) else str_nat (nat i))"

definition zfill :: "nat \<Rightarrow> string \<Rightarrow> string" where
  "zfill w s = replicate (w - length s) CHR ''0'' @ s"

text \<open>
  \<open>f"{index:04d}"\<close>: zero fill, minimum width 4, the sign counted in the width and put
  before the zeros.
\<close>

definition fmt_04d :: "int \<Rightarrow> string" where
  "fmt_04d i = (if i < 0 then CHR ''-'' # zfill 3 (str_nat (nat (- i)))
                else zfill 4 (str_nat (nat i)))"

text \<open>
  A Python \<open>float\<close>: a finite value \<open>(-1)^neg * m * 2^e\<close> (every IEEE double has this
  form), an infinity, or a NaN.
\<close>

datatype pyfloat = Finite bool nat int | Infinity bool | NaN

definition round_half_even :: "nat \<Rightarrow> nat \<Rightarrow> nat" where
  "round_half_even n d =
     (let q = n div d; r = n mod d
      in if d < 2 * r \<or> (2 * r = d \<and> odd q) then q + 1 else q)"

text \<open>The magnitude \<open>m * 2^e\<close> in thousandths, correctly rounded (ties to even).\<close>

definition thousandths :: "nat \<Rightarrow> int \<Rightarrow> nat" where
  "thousandths m e =
     (if 0 \<le> e then m * 1000 * 2 ^ nat e else round_half_even (m * 1000) (2 ^ nat (- e)))"

text \<open>
  \<open>f"{x:.3f}"\<close>. Python prints the correctly rounded decimal expansion of the exact binary
  value, keeps the sign of a value that rounds to zero, and prints \<open>inf\<close>, \<open>-inf\<close> and
  \<open>nan\<close> for the non-finite values.
\<close>

definition fmt_3f :: "pyfloat \<Rightarrow> string" where
  "fmt_3f x =
     (case x of
        Finite neg m e \<Rightarrow>
          (let q = thousandths m e
           in (if neg then ''-'' else '''') @ str_nat (q div 1000) @ ''.''
                @ zfill 3 (str_nat (q mod 1000)))
      | Infinity neg \<Rightarrow> (if neg then ''-inf'' else ''inf'')
      | NaN \<Rightarrow> ''nan'')"


definition is_space :: "char \<Rightarrow> bool" where
  "is_space c = (let n = (of_char c :: nat)
                 in (9 \<le> n \<and> n \<le> 13) \<or> (28 \<le> n \<and> n \<le> 32) \<or> n = 133 \<or> n = 160)"

text \<open>\<open>s.strip()\<close>\<close>

definition strip :: "string \<Rightarrow> string" where
  "strip s = rev (dropWhile is_space (rev (dropWhile is_space s)))"

definition upper_char :: "char \<Rightarrow> char" where
  "upper_char c = (let n = (of_char c :: nat)
                   in if 97 \<le> n \<and> n \<le> 122 then char_of (n - 32) else c)"

text \<open>\<open>s.upper()\<close> on ASCII text, which is all the program applies it to.\<close>

definition upper :: "string \<Rightarrow> string" where
  "upper s = map upper_char s"


definition is_digit :: "char \<Rightarrow> bool" where
  "is_digit c = (48 \<le> (of_char c :: nat) \<and> (of_char c :: nat) \<le> 57)"


section \<open>The video filter chain of \<open>build_video\<close>\<close>

text \<open>The local \<open>vf\<close> of \<open>build_video\<close>: four adjacent string pieces, concatenated.\<close>

definition vf :: "int \<Rightarrow> int \<Rightarrow> int \<Rightarrow> string" where
  "vf fps max_width max_height =
     (''scale=min('' @ str_int max_width @ '',iw):min('' @ str_int max_height @ '',ih):'')
     @ ''force_original_aspect_ratio=decrease,''
     @ ''scale=trunc(iw/2)*2:trunc(ih/2)*2,''
     @ (''fps='' @ str_int fps)"

section \<open>Paths and the file system\<close>

text \<open>
  A \<open>pathlib.Path\<close> on a POSIX system: whether it is absolute, and its components.
  \<open>joinpath\<close> is the operator \<open>/\<close> with a right operand that is one plain component,
  which is all the program uses it with.
\<close>

datatype path = Path bool "string list"

fun join_sep :: "string \<Rightarrow> string list \<Rightarrow> string" where
  "join_sep sep [] = []"
| "join_sep sep [x] = x"
| "join_sep sep (x # y # r) = x @ sep @ join_sep sep (y # r)"

fun str_path :: "path \<Rightarrow> string" where
  "str_path (Path a ps) =
     (if a then ''/'' @ join_sep ''/'' ps else if ps = [] then ''.'' else join_sep ''/'' ps)"

fun name_of :: "path \<Rightarrow> string" where
  "name_of (Path a ps) = (if ps = [] then [] else last ps)"

text \<open>\<open>s.rfind('.')\<close>, with \<open>None\<close> for Python's \<open>-1\<close>.\<close>

definition rfind_dot :: "string \<Rightarrow> nat option" where
  "rfind_dot s =
     (case dropWhile (\<lambda>c. c \<noteq> CHR ''.'') (rev s) of [] \<Rightarrow> None | _ # r \<Rightarrow> Some (length r))"

text \<open>
  \<open>Path.stem\<close>: the final component up to its last dot, unless that dot is the first or the
  last character of the component.
\<close>

definition stem :: "path \<Rightarrow> string" where
  "stem p =
     (let name = name_of p
      in case rfind_dot name of
           None \<Rightarrow> name
         | Some i \<Rightarrow> if 0 < i \<and> i + 1 < length name then take i name else name)"

fun joinpath :: "path \<Rightarrow> string \<Rightarrow> path" where
  "joinpath (Path a ps) s = Path a (ps @ [s])"

fun is_under :: "path \<Rightarrow> path \<Rightarrow> bool" where
  "is_under (Path a ps) (Path b qs) = (a = b \<and> prefix ps qs)"

text \<open>
  A \<open>zipfile.ZipInfo\<close>: the header fields the program sets, and the size the library
  records.
\<close>

record zipinfo =
  filename :: string
  date_time :: "int \<times> int \<times> int \<times> int \<times> int \<times> int"
  compress_type :: nat
  flag_bits :: nat
  create_system :: nat
  create_version :: nat
  extract_version :: nat
  external_attr :: nat
  file_size :: nat

text \<open>
  A file holds plain bytes or an archive, kept as the list of its entries (header and data)
  in the order written.
\<close>

datatype content = Raw string | Archive "(zipinfo \<times> string) list"

datatype node = File content | Dir

datatype exn = RuntimeError string | ValueError string | OSError string | StructError string

fun str_exn :: "exn \<Rightarrow> string" where
  "str_exn (RuntimeError m) = m"
| "str_exn (ValueError m) = m"
| "str_exn (OSError m) = m"
| "str_exn (StructError m) = m"

record completed =
  returncode :: int
  stdout :: string
  stderr :: string

record datetime =
  year :: int
  month :: int
  day :: int
  hour :: int
  minute :: int
  second :: int
  microsecond :: int

text \<open>
  The state the program acts on: the file system, the command lines handed to
  \<open>subprocess.run\<close> so far, the number of random identifiers drawn, and the lines printed.
\<close>

record world =
  fs :: "path \<Rightarrow> node option"
  invoked :: "string list list"
  rand_used :: nat
  printed :: "string list"

text \<open>
  What the program does not decide: what an external process returns and does to the file
  system (or the error of a process that cannot be started), the random bytes, the name of
  a fresh temporary directory, modification times, the local time zone, whether a file can
  be opened for writing, and the byte encoding of an archive.
\<close>

record env =
  popen :: "string list \<Rightarrow> world \<Rightarrow> exn + (completed \<times> (path \<Rightarrow> node option))"
  urandom16 :: "nat \<Rightarrow> 128 word"
  mkdtemp :: "world \<Rightarrow> exn + path"
  st_mtime :: "world \<Rightarrow> path \<Rightarrow> exn + pyfloat"
  fromtimestamp :: "pyfloat \<Rightarrow> exn + datetime"
  open_error :: "world \<Rightarrow> path \<Rightarrow> exn option"
  zip_bytes :: "(zipinfo \<times> string) list \<Rightarrow> string"

definition path_exists :: "world \<Rightarrow> path \<Rightarrow> bool" where
  "path_exists w p = (fs w p \<noteq> None)"

definition stat_mtime :: "env \<Rightarrow> world \<Rightarrow> path \<Rightarrow> exn + pyfloat" where
  "stat_mtime e w p =
     (if fs w p = None then Inl (OSError ''No such file or directory'') else st_mtime e w p)"

definition read_bytes :: "env \<Rightarrow> world \<Rightarrow> path \<Rightarrow> exn + string" where
  "read_bytes e w p =
     (case fs w p of
        None \<Rightarrow> Inl (OSError ''No such file or directory'')
      | Some Dir \<Rightarrow> Inl (OSError ''Is a directory'')
      | Some (File (Raw b)) \<Rightarrow> Inr b
      | Some (File (Archive es)) \<Rightarrow> Inr (zip_bytes e es))"

definition print_line :: "string \<Rightarrow> world \<Rightarrow> world" where
  "print_line s w = w\<lparr>printed := printed w @ [s]\<rparr>"

section \<open>Running external tools\<close>

text \<open>
  \<open>subprocess.run(cmd, capture_output=True, text=True, errors="replace", check=False)\<close>:
  an error when the process cannot be started, its result otherwise.
\<close>

definition subprocess_run :: "env \<Rightarrow> string list \<Rightarrow> world \<Rightarrow> (exn + completed) \<times> world" where
  "subprocess_run e cmd w =
     (let w1 = w\<lparr>invoked := invoked w @ [cmd]\<rparr>
      in case popen e cmd w of
           Inl err \<Rightarrow> (Inl err, w1)
         | Inr (result, fs') \<Rightarrow> (Inr result, w1\<lparr>fs := fs'\<rparr>))"

definition run_cmd :: "env \<Rightarrow> string list \<Rightarrow> string \<Rightarrow> world \<Rightarrow> (exn + unit) \<times> world" where
  "run_cmd e cmd label w =
     (case subprocess_run e cmd w of
        (Inl err, w') \<Rightarrow> (Inl err, w')
      | (Inr result, w') \<Rightarrow>
          if returncode result \<noteq> 0
          then (let err = strip (if stderr result \<noteq> [] then stderr result else stdout result)
                in (Inl (RuntimeError (label @ '' failed: '' @ err)), w'))
          else (Inr (), w'))"

definition has_audio :: "env \<Rightarrow> string \<Rightarrow> path \<Rightarrow> world \<Rightarrow> (exn + bool) \<times> world" where
  "has_audio e ffprobe_path src w =
     (case subprocess_run e
             [ffprobe_path, ''-v'', ''error'', ''-select_streams'', ''a'', ''-show_entries'',
              ''stream=index'', ''-of'', ''csv=p=0'', str_path src] w of
        (Inl err, w') \<Rightarrow> (Inl err, w')
      | (Inr result, w') \<Rightarrow>
          if returncode result \<noteq> 0 then (Inr False, w')
          else (Inr (strip (stdout result) \<noteq> []), w'))"

definition build_video ::
  "env \<Rightarrow> string \<Rightarrow> string \<Rightarrow> path \<Rightarrow> path \<Rightarrow> pyfloat \<Rightarrow> int \<Rightarrow> int \<Rightarrow> int \<Rightarrow> world
     \<Rightarrow> (exn + unit) \<times> world" where
  "build_video e ffmpeg_path ffprobe_path src dst max_duration fps max_width max_height w =
     (let v = vf fps max_width max_height
      in case has_audio e ffprobe_path src w of
           (Inl err, w') \<Rightarrow> (Inl err, w')
         | (Inr audio, w') \<Rightarrow>
             (let cmd =
                (if audio then
                   [ffmpeg_path, ''-y'', ''-i'', str_path src,
                    ''-map'', ''0:v:0'', ''-map'', ''0:a:0'',
                    ''-vf'', v, ''-t'', fmt_3f max_duration,
                    ''-c:v'', ''libx264'', ''-pix_fmt'', ''yuv420p'', ''-profile:v'', ''high'',
                    ''-level'', ''4.1'', ''-c:a'', ''aac'', ''-b:a'', ''128k'', ''-ar'', ''44100'',
                    ''-ac'', ''2'', ''-shortest'', str_path dst]
                 else
                   [ffmpeg_path, ''-y'', ''-i'', str_path src,
                    ''-f'', ''lavfi'', ''-i'', ''anullsrc=channel_layout=stereo:sample_rate=44100'',
                    ''-map'', ''0:v:0'', ''-map'', ''1:a:0'',
                    ''-vf'', v, ''-t'', fmt_3f max_duration,
                    ''-c:v'', ''libx264'', ''-pix_fmt'', ''yuv420p'', ''-profile:v'', ''high'',
                    ''-level'', ''4.1'', ''-c:a'', ''aac'', ''-b:a'', ''128k'', ''-ar'', ''44100'',
                    ''-ac'', ''2'', ''-shortest'', str_path dst])
              in run_cmd e cmd ''ffmpeg video'' w'))"

definition extract_still ::
  "env \<Rightarrow> string \<Rightarrow> path \<Rightarrow> path \<Rightarrow> pyfloat \<Rightarrow> world \<Rightarrow> (exn + unit) \<times> world" where
  "extract_still e ffmpeg_path src dst cover_time w =
     run_cmd e
       [ffmpeg_path, ''-y'', ''-ss'', fmt_3f cover_time, ''-i'', str_path src,
        ''-frames:v'', ''1'', ''-q:v'', ''2'', str_path dst]
       ''ffmpeg still'' w"

definition write_metadata ::
  "env \<Rightarrow> string \<Rightarrow> path \<Rightarrow> path \<Rightarrow> string \<Rightarrow> world \<Rightarrow> (exn + unit) \<times> world" where
  "write_metadata e exiftool_path image_path video_path content_id w =
     (case run_cmd e
             [exiftool_path, ''-m'', ''-overwrite_original'',
              ''-QuickTime:ContentIdentifier='' @ content_id,
              ''-QuickTime:LivePhoto=1'', ''-QuickTime:LivePhotoAuto=1'',
              str_path video_path]
             ''exiftool video'' w of
        (Inl err, w') \<Rightarrow> (Inl err, w')
      | (Inr u, w') \<Rightarrow>
          run_cmd e
            [exiftool_path, ''-m'', ''-overwrite_original'',
             ''-Apple:ContentIdentifier='' @ content_id,
             ''-XMP:AssetIdentifier='' @ content_id,
             str_path image_path]
            ''exiftool image'' w')"

section \<open>The archive library\<close>

text \<open>
  The part of the standard \<open>zipfile\<close> module that \<open>pack_livp\<close> calls, on a POSIX
  system. An archive is the list of the \<open>ZipInfo\<close> headers the library keeps for the
  entries written (\<open>ZipFile.filelist\<close>, from which the central directory is written on
  close), each with its data.
\<close>

definition ZIP_STORED :: nat where
  "ZIP_STORED = 0"

definition ZIP64_LIMIT :: nat where
  "ZIP64_LIMIT = 2 ^ 31 - 1"

text \<open>
  The constructor \<open>ZipInfo(filename, date_time)\<close>: it cuts the name at the first null
  character, refuses a year before 1980, and fills in the defaults.
\<close>

definition ZipInfo :: "string \<Rightarrow> int \<times> int \<times> int \<times> int \<times> int \<times> int \<Rightarrow> exn + zipinfo" where
  "ZipInfo fname dt =
     (if fst dt < 1980 then Inl (ValueError ''ZIP does not support timestamps before 1980'')
      else Inr \<lparr>filename = takeWhile (\<lambda>c. c \<noteq> CHR 0x00) fname, date_time = dt,
                compress_type = ZIP_STORED, flag_bits = 0, create_system = 3,
                create_version = 20, extract_version = 20, external_attr = 0,
                file_size = 0\<rparr>)"

definition utf8_length :: "string \<Rightarrow> nat" where
  "utf8_length s = sum_list (map (\<lambda>c. if (of_char c :: nat) < 128 then 1 else 2) s)"

text \<open>
  The header packs date and time into two unsigned 16-bit fields; \<open>struct.pack\<close> raises
  when a value does not fit.
\<close>

definition dos_fields_ok :: "int \<times> int \<times> int \<times> int \<times> int \<times> int \<Rightarrow> bool" where
  "dos_fields_ok dt =
     (case dt of (y, mo, d, h, mi, s) \<Rightarrow>
        (let dosdate = push_bit 9 (y - 1980) OR push_bit 5 mo OR d;
             dostime = push_bit 11 h OR push_bit 5 mi OR (s div 2)
         in 0 \<le> dosdate \<and> dosdate \<le> 65535 \<and> 0 \<le> dostime \<and> dostime \<le> 65535))"

text \<open>
  \<open>zf.writestr(zinfo, data, compress_type=ZIP_STORED)\<close> on an archive opened for writing
  on a seekable file. Before it writes the header, the library sets the compression type
  and the size, clears the flag bits, replaces external attributes of zero by
  \<open>0o600 << 16\<close>, and raises both version fields to 45 when the size calls for ZIP64
  (\<open>file_size * 1.05 > ZIP64_LIMIT\<close>).
\<close>

definition writestr ::
  "zipinfo \<Rightarrow> string \<Rightarrow> (zipinfo \<times> string) list \<Rightarrow> exn + (zipinfo \<times> string) list" where
  "writestr zinfo data entries =
     (let z1 = zinfo\<lparr>compress_type := ZIP_STORED, file_size := length data\<rparr>;
          z2 = z1\<lparr>flag_bits := 0\<rparr>;
          z3 = z2\<lparr>external_attr :=
                    (if external_attr z2 = 0 then 384 * 2 ^ 16 else external_attr z2)\<rparr>;
          zip64 = (ZIP64_LIMIT * 100 < file_size z3 * 105);
          min_version = (if zip64 then 45 else 0);
          z4 = z3\<lparr>extract_version := max min_version (extract_version z3),
                  create_version := max min_version (create_version z3)\<rparr>
      in if dos_fields_ok (date_time z4) \<and> utf8_length (filename z4) \<le> 65535
            \<and> extract_version z4 \<le> 255
         then Inr (entries @ [(z4, data)])
         else Inl (StructError ''argument out of range''))"

text \<open>
  \<open>zipfile.ZipFile(out_path, "w")\<close>: the file is created or truncated; the archive starts
  empty.
\<close>

definition zip_open :: "env \<Rightarrow> path \<Rightarrow> world \<Rightarrow> exn + world" where
  "zip_open e out_path w =
     (if fs w out_path = Some Dir then Inl (OSError ''Is a directory'')
      else case open_error e w out_path of
             Some err \<Rightarrow> Inl err
           | None \<Rightarrow> Inr (w\<lparr>fs := (fs w)(out_path \<mapsto> File (Archive []))\<rparr>))"

section \<open>\<open>pack_livp\<close>\<close>

text \<open>The \<open>try\<close> block of the loop body: the entry's timestamp, with its fallback.\<close>

definition entry_date_time :: "env \<Rightarrow> world \<Rightarrow> path \<Rightarrow> int \<times> int \<times> int \<times> int \<times> int \<times> int" where
  "entry_date_time e w src_path =
     (case stat_mtime e w src_path of
        Inl err \<Rightarrow> (1980, 1, 1, 0, 0, 0)
      | Inr ts \<Rightarrow>
          (case fromtimestamp e ts of
             Inl err \<Rightarrow> (1980, 1, 1, 0, 0, 0)
           | Inr dt \<Rightarrow> (year dt, month dt, day dt, hour dt, minute dt, second dt)))"

text \<open>
  One pass of the loop body. The archive on disk always holds the entries written so far:
  leaving the \<open>with\<close> block closes it, also on an error.
\<close>

definition pack_entry ::
  "env \<Rightarrow> path \<Rightarrow> path \<Rightarrow> string \<Rightarrow> (zipinfo \<times> string) list \<Rightarrow> world
     \<Rightarrow> (exn + (zipinfo \<times> string) list) \<times> world" where
  "pack_entry e out_path src_path arcname entries w =
     (let dt = entry_date_time e w src_path
      in case ZipInfo arcname dt of
           Inl err \<Rightarrow> (Inl err, w)
         | Inr info0 \<Rightarrow>
             (let info = info0\<lparr>compress_type := ZIP_STORED, flag_bits := 0, create_system := 0,
                               create_version := 0, extract_version := 20, external_attr := 0\<rparr>
              in case read_bytes e w src_path of
                   Inl err \<Rightarrow> (Inl err, w)
                 | Inr data \<Rightarrow>
                     (case writestr info data entries of
                        Inl err \<Rightarrow> (Inl err, w)
                      | Inr entries' \<Rightarrow>
                          (Inr entries',
                           w\<lparr>fs := (fs w)(out_path \<mapsto> File (Archive entries'))\<rparr>))))"

fun pack_loop ::
  "env \<Rightarrow> path \<Rightarrow> (path \<times> string) list \<Rightarrow> (zipinfo \<times> string) list \<Rightarrow> world
     \<Rightarrow> (exn + unit) \<times> world" where
  "pack_loop e out_path [] entries w = (Inr (), w)"
| "pack_loop e out_path ((src_path, arcname) # rest) entries w =
     (case pack_entry e out_path src_path arcname entries w of
        (Inl err, w') \<Rightarrow> (Inl err, w')
      | (Inr entries', w') \<Rightarrow> pack_loop e out_path rest entries' w')"

definition pack_livp ::
  "env \<Rightarrow> path \<Rightarrow> path \<Rightarrow> path \<Rightarrow> string \<Rightarrow> world \<Rightarrow> (exn + unit) \<times> world" where
  "pack_livp e photo_path video_path out_path internal_base w =
     (let photo_name = internal_base @ ''.jpeg'';
          video_name = internal_base @ ''.mov''
      in case zip_open e out_path w of
           Inl err \<Rightarrow> (Inl err, w)
         | Inr w1 \<Rightarrow>
             pack_loop e out_path [(photo_path, photo_name), (video_path, video_name)] [] w1)"

section \<open>\<open>build_livp\<close>\<close>

text \<open>
  \<open>uuid.uuid4()\<close>: sixteen random bytes with the variant and version bits forced, and
  \<open>str\<close> of it: thirty-two lower-case hexadecimal digits in five groups.
\<close>

definition uuid4 :: "128 word \<Rightarrow> 128 word" where
  "uuid4 r =
     (((r AND NOT (push_bit 48 0xc000)) OR push_bit 48 0x8000) AND NOT (push_bit 64 0xf000))
       OR push_bit 76 4"

definition hex_digit :: "nat \<Rightarrow> char" where
  "hex_digit n = (if n < 10 then char_of (48 + n) else char_of (87 + n))"

definition hex32 :: "128 word \<Rightarrow> string" where
  "hex32 u = map (\<lambda>i. hex_digit (unat (drop_bit (4 * (31 - i)) u AND 15))) [0..<32]"

definition str_uuid :: "128 word \<Rightarrow> string" where
  "str_uuid u =
     (let h = hex32 u
      in take 8 h @ ''-'' @ take 4 (drop 8 h) @ ''-'' @ take 4 (drop 12 h) @ ''-''
           @ take 4 (drop 16 h) @ ''-'' @ drop 20 h)"

definition and_then ::
  "(world \<Rightarrow> (exn + 'a) \<times> world) \<Rightarrow> ('a \<Rightarrow> world \<Rightarrow> (exn + 'b) \<times> world) \<Rightarrow> world
     \<Rightarrow> (exn + 'b) \<times> world" where
  "and_then m f w = (case m w of (Inl err, w') \<Rightarrow> (Inl err, w') | (Inr a, w') \<Rightarrow> f a w')"

text \<open>Leaving the \<open>TemporaryDirectory\<close> block removes the directory and all below it.\<close>

definition cleanup :: "path \<Rightarrow> world \<Rightarrow> world" where
  "cleanup tmpdir w = w\<lparr>fs := (\<lambda>p. if is_under tmpdir p then None else fs w p)\<rparr>"

definition build_livp ::
  "env \<Rightarrow> string \<Rightarrow> string \<Rightarrow> string \<Rightarrow> path \<Rightarrow> path \<Rightarrow> int \<Rightarrow> pyfloat \<Rightarrow> pyfloat
     \<Rightarrow> int \<Rightarrow> int \<Rightarrow> int \<Rightarrow> world \<Rightarrow> (exn + path) \<times> world" where
  "build_livp e ffmpeg_path ffprobe_path exiftool_path src out_dir index cover_time
       max_duration fps max_width max_height w =
     (let content_id = upper (str_uuid (uuid4 (urandom16 e (rand_used w))));
          w0 = w\<lparr>rand_used := rand_used w + 1\<rparr>;
          internal_base = ''IMG_'' @ fmt_04d index @ ''.JPG'';
          out_name = stem src @ ''.livp'';
          out_path = joinpath out_dir out_name;
          out_path = (if path_exists w0 out_path
                      then joinpath out_dir (stem src @ ''_'' @ fmt_04d index @ ''.livp'')
                      else out_path)
      in case mkdtemp e w0 of
           Inl err \<Rightarrow> (Inl err, w0)
         | Inr tmpdir_path \<Rightarrow>
             (let w1 = w0\<lparr>fs := (fs w0)(tmpdir_path \<mapsto> Dir)\<rparr>;
                  tmp_mov = joinpath tmpdir_path ''livephoto.mov'';
                  tmp_jpeg = joinpath tmpdir_path ''livephoto.jpeg'';
                  (r, w2) =
                    and_then
                      (build_video e ffmpeg_path ffprobe_path src tmp_mov max_duration fps
                         max_width max_height)
                      (\<lambda>_. and_then (extract_still e ffmpeg_path tmp_mov tmp_jpeg cover_time)
                        (\<lambda>_. and_then (write_metadata e exiftool_path tmp_jpeg tmp_mov content_id)
                          (\<lambda>_. pack_livp e tmp_jpeg tmp_mov out_path internal_base)))
                      w1
              in (case r of Inl err \<Rightarrow> Inl err | Inr u \<Rightarrow> Inr out_path,
                  cleanup tmpdir_path w2)))"

section \<open>The batch loop of \<open>main\<close>\<close>

text \<open>The locals of \<open>main\<close> that the loop passes on unchanged.\<close>

record settings =
  s_ffmpeg_path :: string
  s_ffprobe_path :: string
  s_exiftool_path :: string
  s_output_dir :: path
  s_cover_time :: pyfloat
  s_max_duration :: pyfloat
  s_fps :: int
  s_max_width :: int
  s_max_height :: int

text \<open>
  \<open>for idx, src in enumerate(sources, start=1)\<close>, with the index of the next file as an
  argument; the result is \<open>main\<close>'s return value.
\<close>

fun main_loop :: "env \<Rightarrow> settings \<Rightarrow> int \<Rightarrow> path list \<Rightarrow> world \<Rightarrow> int \<times> world" where
  "main_loop e c idx [] w = (0, w)"
| "main_loop e c idx (src # rest) w =
     (let w1 = print_line (''Processing: '' @ name_of src) w
      in case build_livp e (s_ffmpeg_path c) (s_ffprobe_path c) (s_exiftool_path c) src
                (s_output_dir c) idx (s_cover_time c) (s_max_duration c) (s_fps c)
                (s_max_width c) (s_max_height c) w1 of
           (Inr out_path, w2) \<Rightarrow>
             main_loop e c (idx + 1) rest (print_line (''Output: '' @ name_of out_path) w2)
         | (Inl exc, w2) \<Rightarrow>
             (1, print_line (''Failed: '' @ name_of src @ '' -> '' @ str_exn exc) w2))"

section \<open>A concrete environment\<close>

text \<open>
  An environment to run the definitions in: a probe that reports one audio stream, an
  encoder that writes its last argument, a metadata tool that succeeds, and one temporary
  directory \<open>/tmp/livp_a\<close>. A command for which \<open>bad\<close> holds exits with status 1; a
  program other than the three cannot be started.
\<close>

definition demo_popen ::
  "(string list \<Rightarrow> bool) \<Rightarrow> string list \<Rightarrow> world
     \<Rightarrow> exn + (completed \<times> (path \<Rightarrow> node option))" where
  "demo_popen bad cmd w =
     (if cmd = [] then Inl (OSError ''No such file or directory'')
      else if bad cmd then Inr (\<lparr>returncode = 1, stdout = [], stderr = ''boom ''\<rparr>, fs w)
      else if hd cmd = ''ffprobe''
        then Inr (\<lparr>returncode = 0, stdout = ''0 '', stderr = []\<rparr>, fs w)
      else if hd cmd = ''ffmpeg'' \<and> last cmd = ''/tmp/livp_a/livephoto.mov''
        then Inr (\<lparr>returncode = 0, stdout = [], stderr = []\<rparr>,
                  (fs w)(Path True [''tmp'', ''livp_a'', ''livephoto.mov''] \<mapsto> File (Raw ''MOV'')))
      else if hd cmd = ''ffmpeg'' \<and> last cmd = ''/tmp/livp_a/livephoto.jpeg''
        then Inr (\<lparr>returncode = 0, stdout = [], stderr = []\<rparr>,
                  (fs w)(Path True [''tmp'', ''livp_a'', ''livephoto.jpeg''] \<mapsto> File (Raw ''JPEG'')))
      else if hd cmd = ''exiftool''
        then Inr (\<lparr>returncode = 0, stdout = [], stderr = []\<rparr>, fs w)
      else Inl (OSError ''No such file or directory''))"

definition demo_env :: "(string list \<Rightarrow> bool) \<Rightarrow> env" where
  "demo_env bad =
     \<lparr>popen = demo_popen bad,
      urandom16 = (\<lambda>n. 0x0123456789abcdef0123456789abcdef + word_of_nat n),
      mkdtemp = (\<lambda>w. Inr (Path True [''tmp'', ''livp_a''])),
      st_mtime = (\<lambda>w p. Inr (Finite False
                    (if p = Path True [''tmp'', ''livp_a'', ''livephoto.mov'']
                     then 1700000000 else 0) 0)),
      fromtimestamp = (\<lambda>t. if t = Finite False 1700000000 0
                           then Inr \<lparr>year = 2023, month = 11, day = 14, hour = 22, minute = 13,
                                     second = 21, microsecond = 5\<rparr>
                           else Inl (OSError ''Value too large for defined data type'')),
      open_error = (\<lambda>w p. None),
      zip_bytes = (\<lambda>es. ''PK'')\<rparr>"

definition demo_world :: world where
  "demo_world =
     \<lparr>fs = [Path True [''in'', ''video.mp4''] \<mapsto> File (Raw ''SRC''),
            Path True [''out''] \<mapsto> Dir,
            Path True [''out'', ''video.livp''] \<mapsto> File (Raw ''OLD''),
            Path True [''out'', ''video_0003.livp''] \<mapsto> File (Raw ''OLDER'')],
      invoked = [], rand_used = 0, printed = []\<rparr>"

text \<open>The temporary files as the encoder leaves them, for running \<open>pack_livp\<close> alone.\<close>

definition demo_packed_world :: world where
  "demo_packed_world =
     demo_world\<lparr>fs := (fs demo_world)
        (Path True [''tmp'', ''livp_a'', ''livephoto.mov''] \<mapsto> File (Raw ''MOV''),
         Path True [''tmp'', ''livp_a'', ''livephoto.jpeg''] \<mapsto> File (Raw ''JPEG''))\<rparr>"

definition demo_settings :: settings where
  "demo_settings =
     \<lparr>s_ffmpeg_path = ''ffmpeg'', s_ffprobe_path = ''ffprobe'', s_exiftool_path = ''exiftool'',
      s_output_dir = Path True [''out''],
      s_cover_time = Finite False 4503599627370496 (- 53),
      s_max_duration = Finite False 6530219459687219 (- 51),
      s_fps = 30, s_max_width = 3840, s_max_height = 2160\<rparr>"

section \<open>Properties of the text operations\<close>

lemma str_nat_small: "n < 10 \<Longrightarrow> str_nat n = [digit_char n]"
  by (subst str_nat.simps) simp

lemma str_nat_big: "10 \<le> n \<Longrightarrow> str_nat n = str_nat (n div 10) @ [digit_char (n mod 10)]"
  by (subst str_nat.simps) simp

lemma is_digit_digit_char: "d < 10 \<Longrightarrow> is_digit (digit_char d)"
  by (simp add: is_digit_def digit_char_def)

lemma str_nat_digits: "list_all is_digit (str_nat n)"
proof (induction n rule: str_nat.induct)
  case (1 n)
  show ?case
  proof (cases "n < 10")
    case True
    then show ?thesis by (simp add: str_nat_small is_digit_digit_char)
  next
    case False
    with 1 show ?thesis by (simp add: str_nat_big is_digit_digit_char)
  qed
qed












lemma fmt_04d_chars: "list_all (\<lambda>c. is_digit c \<or> c = CHR ''-'') (fmt_04d i)"
  using str_nat_digits [of "nat i"] str_nat_digits [of "nat (- i)"]
  by (auto simp: fmt_04d_def zfill_def list_all_iff is_digit_def)

lemma internal_base_no_null:
  "takeWhile (\<lambda>c. c \<noteq> CHR 0x00) (''IMG_'' @ fmt_04d i @ ''.JPG'' @ ext)
     = ''IMG_'' @ fmt_04d i @ ''.JPG'' @ takeWhile (\<lambda>c. c \<noteq> CHR 0x00) ext"
proof -
  have "\<forall>c \<in> set (fmt_04d i). c \<noteq> CHR 0x00"
    using fmt_04d_chars [of i] by (auto simp: list_all_iff is_digit_def)
  then have "takeWhile (\<lambda>c. c \<noteq> CHR 0x00) (fmt_04d i @ r)
               = fmt_04d i @ takeWhile (\<lambda>c. c \<noteq> CHR 0x00) r" for r
    by (simp add: takeWhile_append2)
  then show ?thesis by simp
qed


section \<open>What each call to an external tool does\<close>

lemma subprocess_run_invoked [simp]:
  "invoked (snd (subprocess_run e cmd w)) = invoked w @ [cmd]"
  by (simp add: subprocess_run_def Let_def split: sum.splits prod.splits)

lemma subprocess_run_rand_used [simp]:
  "rand_used (snd (subprocess_run e cmd w)) = rand_used w"
  by (simp add: subprocess_run_def Let_def split: sum.splits prod.splits)

lemma subprocess_run_printed [simp]:
  "printed (snd (subprocess_run e cmd w)) = printed w"
  by (simp add: subprocess_run_def Let_def split: sum.splits prod.splits)

lemma subprocess_run_Inl:
  "popen e cmd w = Inl err \<Longrightarrow>
     subprocess_run e cmd w = (Inl err, w\<lparr>invoked := invoked w @ [cmd]\<rparr>)"
  by (simp add: subprocess_run_def)

lemma subprocess_run_Inr:
  "popen e cmd w = Inr (result, fs') \<Longrightarrow>
     subprocess_run e cmd w = (Inr result, w\<lparr>invoked := invoked w @ [cmd], fs := fs'\<rparr>)"
  by (simp add: subprocess_run_def)

lemma run_cmd_invoked [simp]:
  "invoked (snd (run_cmd e cmd label w)) = invoked w @ [cmd]"
proof -
  obtain r w' where sr: "subprocess_run e cmd w = (r, w')" by (cases "subprocess_run e cmd w")
  then have "invoked w' = invoked w @ [cmd]"
    using subprocess_run_invoked [of e cmd w] by simp
  with sr show ?thesis
    by (simp add: run_cmd_def Let_def split: sum.splits)
qed

lemma run_cmd_rand_used [simp]:
  "rand_used (snd (run_cmd e cmd label w)) = rand_used w"
proof -
  obtain r w' where sr: "subprocess_run e cmd w = (r, w')" by (cases "subprocess_run e cmd w")
  then have "rand_used w' = rand_used w"
    using subprocess_run_rand_used [of e cmd w] by simp
  with sr show ?thesis
    by (simp add: run_cmd_def Let_def split: sum.splits)
qed

lemma run_cmd_cases:
  "run_cmd e cmd label w =
     (case popen e cmd w of
        Inl err \<Rightarrow> (Inl err, w\<lparr>invoked := invoked w @ [cmd]\<rparr>)
      | Inr (result, fs') \<Rightarrow>
          (if returncode result \<noteq> 0
           then Inl (RuntimeError (label @ '' failed: ''
                  @ strip (if stderr result \<noteq> [] then stderr result else stdout result)))
           else Inr (),
           w\<lparr>invoked := invoked w @ [cmd], fs := fs'\<rparr>))"
  by (simp add: run_cmd_def subprocess_run_def Let_def split: sum.splits prod.splits)

lemma has_audio_cases:
  "has_audio e ffprobe_path src w =
     (let cmd = [ffprobe_path, ''-v'', ''error'', ''-select_streams'', ''a'', ''-show_entries'',
                 ''stream=index'', ''-of'', ''csv=p=0'', str_path src]
      in case popen e cmd w of
           Inl err \<Rightarrow> (Inl err, w\<lparr>invoked := invoked w @ [cmd]\<rparr>)
         | Inr (result, fs') \<Rightarrow>
             (Inr (returncode result = 0 \<and> strip (stdout result) \<noteq> []),
              w\<lparr>invoked := invoked w @ [cmd], fs := fs'\<rparr>))"
  by (simp add: has_audio_def subprocess_run_def Let_def split: sum.splits prod.splits)

lemma build_video_rand_used [simp]:
  "rand_used (snd (build_video e ffmpeg_path ffprobe_path src dst max_duration fps max_width
                     max_height w)) = rand_used w"
proof -
  obtain r w' where ha: "has_audio e ffprobe_path src w = (r, w')"
    by (cases "has_audio e ffprobe_path src w")
  then have "rand_used w' = rand_used w"
    by (auto simp: has_audio_cases Let_def split: sum.splits)
  with ha show ?thesis
    by (cases r) (simp_all add: build_video_def Let_def)
qed

lemma extract_still_facts [simp]:
  "rand_used (snd (extract_still e ffmpeg_path src dst cover_time w)) = rand_used w"
  "invoked (snd (extract_still e ffmpeg_path src dst cover_time w))
     = invoked w @ [[ffmpeg_path, ''-y'', ''-ss'', fmt_3f cover_time, ''-i'', str_path src,
                     ''-frames:v'', ''1'', ''-q:v'', ''2'', str_path dst]]"
  by (simp_all add: extract_still_def)

lemma write_metadata_rand_used [simp]:
  "rand_used (snd (write_metadata e exiftool_path image_path video_path content_id w))
     = rand_used w"
  by (simp add: write_metadata_def run_cmd_cases split: sum.splits prod.splits)



section \<open>What \<open>pack_livp\<close> writes\<close>

text \<open>
  A pass of the loop body that succeeds appends one entry. Its header is the one
  \<open>pack_livp\<close> builds, as \<open>writestr\<close> changes it: the external attributes are
  \<open>0o600 << 16 = 25165824\<close>, and both versions are 45 for data that needs ZIP64.
\<close>

lemma pack_entry_Inr_explicit:
  assumes "pack_entry e out_path src_path arcname entries w = (Inr entries', w')"
  shows "\<exists>d. read_bytes e w src_path = Inr d
           \<and> entries' = entries @
                [(\<lparr>filename = takeWhile (\<lambda>c. c \<noteq> CHR 0x00) arcname,
                   date_time = entry_date_time e w src_path,
                   compress_type = ZIP_STORED, flag_bits = 0, create_system = 0,
                   create_version = (if ZIP64_LIMIT * 100 < length d * 105 then 45 else 0),
                   extract_version = (if ZIP64_LIMIT * 100 < length d * 105 then 45 else 20),
                   external_attr = 25165824, file_size = length d\<rparr>, d)]
           \<and> w' = w\<lparr>fs := (fs w)(out_path \<mapsto> File (Archive entries'))\<rparr>"
proof -
  let ?dt = "entry_date_time e w src_path"
  from assms obtain info0 where zi: "ZipInfo arcname ?dt = Inr info0"
    by (cases "ZipInfo arcname ?dt") (simp_all add: pack_entry_def Let_def)
  from assms zi obtain d where rb: "read_bytes e w src_path = Inr d"
    by (cases "read_bytes e w src_path") (simp_all add: pack_entry_def Let_def)
  let ?info = "info0\<lparr>compress_type := ZIP_STORED, flag_bits := 0, create_system := 0,
                       create_version := 0, extract_version := 20, external_attr := 0\<rparr>"
  from assms zi rb have ws: "writestr ?info d entries = Inr entries'"
    and w': "w' = w\<lparr>fs := (fs w)(out_path \<mapsto> File (Archive entries'))\<rparr>"
    by (cases "writestr ?info d entries"; simp add: pack_entry_def Let_def; fail)+
  from zi have info0: "info0 = \<lparr>filename = takeWhile (\<lambda>c. c \<noteq> CHR 0x00) arcname,
      date_time = ?dt, compress_type = ZIP_STORED, flag_bits = 0, create_system = 3,
      create_version = 20, extract_version = 20, external_attr = 0, file_size = 0\<rparr>"
    by (simp add: ZipInfo_def split: if_splits)
  from ws have "entries' = entries @
                [(\<lparr>filename = takeWhile (\<lambda>c. c \<noteq> CHR 0x00) arcname,
                   date_time = entry_date_time e w src_path,
                   compress_type = ZIP_STORED, flag_bits = 0, create_system = 0,
                   create_version = (if ZIP64_LIMIT * 100 < length d * 105 then 45 else 0),
                   extract_version = (if ZIP64_LIMIT * 100 < length d * 105 then 45 else 20),
                   external_attr = 25165824, file_size = length d\<rparr>, d)]"
    unfolding info0 writestr_def Let_def
    by (simp split: if_splits)
  with rb w' show ?thesis by blast
qed

lemma pack_entry_Inr:
  assumes "pack_entry e out_path src_path arcname entries w = (Inr entries', w')"
  shows "\<exists>z d. entries' = entries @ [(z, d)]
           \<and> w' = w\<lparr>fs := (fs w)(out_path \<mapsto> File (Archive (entries @ [(z, d)])))\<rparr>
           \<and> read_bytes e w src_path = Inr d
           \<and> filename z = takeWhile (\<lambda>c. c \<noteq> CHR 0x00) arcname
           \<and> date_time z = entry_date_time e w src_path
           \<and> compress_type z = ZIP_STORED \<and> flag_bits z = 0 \<and> create_system z = 0
           \<and> external_attr z = 25165824
           \<and> extract_version z = (if ZIP64_LIMIT * 100 < length d * 105 then 45 else 20)
           \<and> create_version z = (if ZIP64_LIMIT * 100 < length d * 105 then 45 else 0)
           \<and> file_size z = length d"
proof -
  from pack_entry_Inr_explicit [OF assms] obtain d where
    d: "read_bytes e w src_path = Inr d"
    and es: "entries' = entries @
                [(\<lparr>filename = takeWhile (\<lambda>c. c \<noteq> CHR 0x00) arcname,
                   date_time = entry_date_time e w src_path,
                   compress_type = ZIP_STORED, flag_bits = 0, create_system = 0,
                   create_version = (if ZIP64_LIMIT * 100 < length d * 105 then 45 else 0),
                   extract_version = (if ZIP64_LIMIT * 100 < length d * 105 then 45 else 20),
                   external_attr = 25165824, file_size = length d\<rparr>, d)]"
    and w': "w' = w\<lparr>fs := (fs w)(out_path \<mapsto> File (Archive entries'))\<rparr>"
    by blast
  show ?thesis
    apply (rule exI [where x = "fst (last entries')"])
    apply (rule exI [where x = d])
    using d w' by (simp add: es)
qed

lemma pack_entry_invoked [simp]:
  "invoked (snd (pack_entry e out_path src_path arcname entries w)) = invoked w"
  "rand_used (snd (pack_entry e out_path src_path arcname entries w)) = rand_used w"
  "printed (snd (pack_entry e out_path src_path arcname entries w)) = printed w"
  by (simp_all add: pack_entry_def Let_def split: sum.splits)

lemma pack_loop_invoked [simp]:
  "invoked (snd (pack_loop e out_path items entries w)) = invoked w"
proof (induction items arbitrary: entries w)
  case Nil
  then show ?case by simp
next
  case (Cons it items)
  obtain sp an where it: "it = (sp, an)" by (cases it)
  obtain r w' where pe: "pack_entry e out_path sp an entries w = (r, w')"
    by (cases "pack_entry e out_path sp an entries w")
  then have "invoked w' = invoked w"
    using pack_entry_invoked(1) [of e out_path sp an entries w] by simp
  with Cons it pe show ?case by (simp split: sum.splits)
qed

lemma pack_loop_rand_used [simp]:
  "rand_used (snd (pack_loop e out_path items entries w)) = rand_used w"
proof (induction items arbitrary: entries w)
  case Nil
  then show ?case by simp
next
  case (Cons it items)
  obtain sp an where it: "it = (sp, an)" by (cases it)
  obtain r w' where pe: "pack_entry e out_path sp an entries w = (r, w')"
    by (cases "pack_entry e out_path sp an entries w")
  then have "rand_used w' = rand_used w"
    using pack_entry_invoked(2) [of e out_path sp an entries w] by simp
  with Cons it pe show ?case by (simp split: sum.splits)
qed

lemma pack_livp_invoked [simp]:
  "invoked (snd (pack_livp e photo_path video_path out_path internal_base w)) = invoked w"
  "rand_used (snd (pack_livp e photo_path video_path out_path internal_base w)) = rand_used w"
  unfolding pack_livp_def Let_def zip_open_def
  by (simp_all del: pack_loop.simps split: sum.splits option.splits)

lemma pack_livp_Inr:
  assumes "pack_livp e photo_path video_path out_path internal_base w = (Inr u, w')"
  shows "\<exists>z1 d1 z2 d2.
           w' = w\<lparr>fs := (fs w)(out_path \<mapsto> File (Archive [(z1, d1), (z2, d2)]))\<rparr>
         \<and> filename z1 = takeWhile (\<lambda>c. c \<noteq> CHR 0x00) (internal_base @ ''.jpeg'')
         \<and> filename z2 = takeWhile (\<lambda>c. c \<noteq> CHR 0x00) (internal_base @ ''.mov'')
         \<and> date_time z1 = entry_date_time e
              (w\<lparr>fs := (fs w)(out_path \<mapsto> File (Archive []))\<rparr>) photo_path
         \<and> date_time z2 = entry_date_time e
              (w\<lparr>fs := (fs w)(out_path \<mapsto> File (Archive [(z1, d1)]))\<rparr>) video_path
         \<and> compress_type z1 = ZIP_STORED \<and> compress_type z2 = ZIP_STORED
         \<and> flag_bits z1 = 0 \<and> flag_bits z2 = 0
         \<and> create_system z1 = 0 \<and> create_system z2 = 0
         \<and> external_attr z1 = 25165824 \<and> external_attr z2 = 25165824"
proof -
  let ?w1 = "w\<lparr>fs := (fs w)(out_path \<mapsto> File (Archive []))\<rparr>"
  from assms have op: "zip_open e out_path w = Inr ?w1"
    by (auto simp: pack_livp_def zip_open_def Let_def split: sum.splits if_splits option.splits)
  with assms have loop:
    "pack_loop e out_path
       [(photo_path, internal_base @ ''.jpeg''), (video_path, internal_base @ ''.mov'')] [] ?w1
     = (Inr u, w')"
    by (simp add: pack_livp_def Let_def)
  obtain r1 w2 where p1:
    "pack_entry e out_path photo_path (internal_base @ ''.jpeg'') [] ?w1 = (r1, w2)"
    by (cases "pack_entry e out_path photo_path (internal_base @ ''.jpeg'') [] ?w1")
  with loop obtain es1 where r1: "r1 = Inr es1" by (cases r1) auto
  from pack_entry_Inr [OF p1 [unfolded r1]] obtain z1 d1 where
    e1: "es1 = [(z1, d1)]"
    and w2: "w2 = w\<lparr>fs := (fs w)(out_path \<mapsto> File (Archive [(z1, d1)]))\<rparr>"
    and f1: "filename z1 = takeWhile (\<lambda>c. c \<noteq> CHR 0x00) (internal_base @ ''.jpeg'')"
            "date_time z1 = entry_date_time e ?w1 photo_path"
            "compress_type z1 = ZIP_STORED" "flag_bits z1 = 0" "create_system z1 = 0"
            "external_attr z1 = 25165824"
    by auto
  obtain r2 w3 where p2:
    "pack_entry e out_path video_path (internal_base @ ''.mov'') es1 w2 = (r2, w3)"
    by (cases "pack_entry e out_path video_path (internal_base @ ''.mov'') es1 w2")
  with loop p1 r1 obtain es2 where r2: "r2 = Inr es2" and w3: "w3 = w'"
    by (cases r2) auto
  from pack_entry_Inr [OF p2 [unfolded r2]] obtain z2 d2 where
    e2: "es2 = es1 @ [(z2, d2)]"
    and w3': "w3 = w2\<lparr>fs := (fs w2)(out_path \<mapsto> File (Archive (es1 @ [(z2, d2)])))\<rparr>"
    and f2: "filename z2 = takeWhile (\<lambda>c. c \<noteq> CHR 0x00) (internal_base @ ''.mov'')"
            "date_time z2 = entry_date_time e w2 video_path"
            "compress_type z2 = ZIP_STORED" "flag_bits z2 = 0" "create_system z2 = 0"
            "external_attr z2 = 25165824"
    by auto
  have "w' = w\<lparr>fs := (fs w)(out_path \<mapsto> File (Archive [(z1, d1), (z2, d2)]))\<rparr>"
    using w3 w3' w2 e1 by simp
  with f1 f2 w2 show ?thesis by blast
qed

section \<open>The stages of \<open>build_livp\<close>\<close>

lemma and_then_Inr:
  "and_then m f w = (Inr b, w'') \<Longrightarrow> \<exists>a w'. m w = (Inr a, w') \<and> f a w' = (Inr b, w'')"
  by (cases "m w") (auto simp: and_then_def split: sum.splits)

lemma and_then_Inl:
  "m w = (Inl err, w') \<Longrightarrow> and_then m f w = (Inl err, w')"
  by (simp add: and_then_def)

lemma and_then_step:
  "m w = (Inr a, w') \<Longrightarrow> and_then m f w = f a w'"
  by (simp add: and_then_def)

lemma cleanup_facts [simp]:
  "invoked (cleanup t w) = invoked w"
  "rand_used (cleanup t w) = rand_used w"
  "printed (cleanup t w) = printed w"
  by (simp_all add: cleanup_def)


lemma build_livp_split:
  fixes e ffmpeg_path ffprobe_path exiftool_path src out_dir index cover_time max_duration
    fps max_width max_height w
  defines "w0 \<equiv> w\<lparr>rand_used := rand_used w + 1\<rparr>"
      and "content_id \<equiv> upper (str_uuid (uuid4 (urandom16 e (rand_used w))))"
      and "internal_base \<equiv> ''IMG_'' @ fmt_04d index @ ''.JPG''"
      and "out_path \<equiv>
             (if path_exists w (joinpath out_dir (stem src @ ''.livp''))
              then joinpath out_dir (stem src @ ''_'' @ fmt_04d index @ ''.livp'')
              else joinpath out_dir (stem src @ ''.livp''))"
      and "res \<equiv> build_livp e ffmpeg_path ffprobe_path exiftool_path src out_dir index
                    cover_time max_duration fps max_width max_height w"
  shows "mkdtemp e w0 = Inl err \<Longrightarrow> res = (Inl err, w0)"
    and "mkdtemp e w0 = Inr tmpdir_path \<Longrightarrow>
           and_then
             (build_video e ffmpeg_path ffprobe_path src
                (joinpath tmpdir_path ''livephoto.mov'') max_duration fps max_width max_height)
             (\<lambda>_. and_then
                    (extract_still e ffmpeg_path (joinpath tmpdir_path ''livephoto.mov'')
                       (joinpath tmpdir_path ''livephoto.jpeg'') cover_time)
               (\<lambda>_. and_then
                      (write_metadata e exiftool_path (joinpath tmpdir_path ''livephoto.jpeg'')
                         (joinpath tmpdir_path ''livephoto.mov'') content_id)
                 (\<lambda>_. pack_livp e (joinpath tmpdir_path ''livephoto.jpeg'')
                        (joinpath tmpdir_path ''livephoto.mov'') out_path internal_base)))
             (w0\<lparr>fs := (fs w0)(tmpdir_path \<mapsto> Dir)\<rparr>) = (r, w2) \<Longrightarrow>
           res = (case r of Inl err \<Rightarrow> Inl err | Inr u \<Rightarrow> Inr out_path,
                  cleanup tmpdir_path w2)"
  by (auto simp: res_def build_livp_def Let_def w0_def content_id_def internal_base_def
                 out_path_def path_exists_def split: sum.splits)

section \<open>Runs in the concrete environment\<close>

lemma demo_env_simps [simp]:
  "popen (demo_env bad) = demo_popen bad"
  "mkdtemp (demo_env bad) w = Inr (Path True [''tmp'', ''livp_a''])"
  "open_error (demo_env bad) w p = None"
  by (simp_all add: demo_env_def)

lemma str_nat_evals:
  "str_nat 0 = ''0''" "str_nat 2 = ''2''" "str_nat 30 = ''30''" "str_nat 900 = ''900''"
  "str_nat 500 = ''500''" "str_nat 3840 = ''3840''" "str_nat 2160 = ''2160''" "str_nat 3 = ''3''"
  by (simp_all add: str_nat_small str_nat_big digit_char_def char_of_def bit_iff_odd)

lemma demo_vf: "vf 30 3840 2160 =
  ''scale=min(3840,iw):min(2160,ih):force_original_aspect_ratio=decrease,scale=trunc(iw/2)*2:trunc(ih/2)*2,fps=30''"
  by (simp add: vf_def str_int_def str_nat_evals)

lemma demo_durations:
  "fmt_3f (Finite False 6530219459687219 (- 51)) = ''2.900''"
  "fmt_3f (Finite False 4503599627370496 (- 53)) = ''0.500''"
  "fmt_3f (Infinity False) = ''inf''"
  by (simp_all add: fmt_3f_def thousandths_def round_half_even_def Let_def zfill_def
                    str_nat_evals)

lemma demo_strip: "strip ''0 '' = ''0''" "strip ''boom '' = ''boom''" "strip [] = []"
  by (simp_all add: strip_def is_space_def)

lemma upt32: "[0..<32] = [0,1,2,3,4,5,6,7,8,9,10,11,12,13,14,15,16,17,18,19,20,21,22,23,24,25,26,27,28,29,30,31]"
  by (simp add: upt_rec_numeral upt_conv_Cons)

lemma demo_content_id:
  "upper (str_uuid (uuid4 0x0123456789abcdef0123456789abcdef))
     = ''01234567-89AB-4DEF-8123-456789ABCDEF''"
  by (simp add: uuid4_def str_uuid_def hex32_def upt32 hex_digit_def upper_def
                upper_char_def Let_def char_of_def bit_iff_odd drop_bit_eq_div)

lemma demo_zfill: "zfill 4 ''3'' = ''0003''" "zfill 4 ''1'' = ''0001''" "zfill 4 ''2'' = ''0002''"
  by (simp_all add: zfill_def numeral_3_eq_3)

lemma demo_names:
  "stem (Path True [''in'', ''video.mp4'']) = ''video''"
  "fmt_04d 3 = ''0003''"
  by (simp_all add: stem_def rfind_dot_def fmt_04d_def demo_zfill str_nat_evals)

lemmas demo_eval =
  build_livp_def Let_def and_then_def build_video_def has_audio_cases run_cmd_cases
  extract_still_def write_metadata_def pack_livp_def zip_open_def pack_entry_def
  entry_date_time_def stat_mtime_def read_bytes_def ZipInfo_def writestr_def
  dos_fields_ok_def utf8_length_def ZIP_STORED_def ZIP64_LIMIT_def cleanup_def
  path_exists_def demo_env_def demo_popen_def demo_world_def
  demo_names demo_vf demo_durations demo_strip

lemma demo_build:
  fixes R
  defines "R \<equiv> build_livp (demo_env (\<lambda>c. False)) ''ffmpeg'' ''ffprobe'' ''exiftool''
                 (Path True [''in'', ''video.mp4'']) (Path True [''out'']) 3
                 (Finite False 4503599627370496 (- 53)) (Finite False 6530219459687219 (- 51)) 30 3840 2160
                 demo_world"
  shows "fst R = Inr (Path True [''out'', ''video_0003.livp''])"
    and "rand_used (snd R) = 1"
  unfolding R_def
  by (simp_all add: demo_eval demo_content_id)


lemma demo_pack:
  fixes R
  defines "R \<equiv> pack_livp (demo_env (\<lambda>c. False))
                 (Path True [''tmp'', ''livp_a'', ''livephoto.jpeg''])
                 (Path True [''tmp'', ''livp_a'', ''livephoto.mov''])
                 (Path True [''out'', ''clip.livp'']) ''IMG_0001.JPG'' demo_packed_world"
  shows "fst R = Inr ()"
    and "fs (snd R) (Path True [''out'', ''clip.livp'']) =
      Some (File (Archive
        [(\<lparr>filename = ''IMG_0001.JPG.jpeg'', date_time = (1980, 1, 1, 0, 0, 0),
            compress_type = 0, flag_bits = 0, create_system = 0, create_version = 0,
            extract_version = 20, external_attr = 25165824, file_size = 4\<rparr>, ''JPEG''),
         (\<lparr>filename = ''IMG_0001.JPG.mov'', date_time = (2023, 11, 14, 22, 13, 21),
            compress_type = 0, flag_bits = 0, create_system = 0, create_version = 0,
            extract_version = 20, external_attr = 25165824, file_size = 3\<rparr>, ''MOV'')]))"
  unfolding R_def
  by (simp_all add: demo_eval demo_packed_world_def)

lemma demo_batch_names:
  "stem (Path True [''in'', ''a.mp4'']) = ''a''"
  "stem (Path True [''in'', ''b.mp4'']) = ''b''"
  "fmt_04d 1 = ''0001''" "fmt_04d 2 = ''0002''"
  by (simp_all add: stem_def rfind_dot_def fmt_04d_def demo_zfill str_nat_small digit_char_def
                    char_of_def bit_iff_odd)

lemmas demo_batch_eval =
  Let_def print_line_def demo_settings_def demo_batch_names demo_eval demo_content_id

section \<open>C1: one content identifier per file\<close>



section \<open>C2: the encoder command\<close>




section \<open>C3: the filter chain\<close>


section \<open>C4: the archive headers\<close>

text \<open>
  C4, on a concrete pair of files. \<open>pack_livp\<close> writes two entries, \<open><base>.jpeg\<close> and
  \<open><base>.mov\<close>, stored, with flag bits 0, creating system 0, creating version 0 and
  extraction version 20. Their external attributes are not 0: \<open>pack_livp\<close> sets the field
  to 0, and \<open>writestr\<close> replaces a zero there by \<open>0o600 << 16\<close>, which is 25165824.
\<close>

theorem pack_livp_external_attr_not_zero:
  "fs (snd (pack_livp (demo_env (\<lambda>c. False))
              (Path True [''tmp'', ''livp_a'', ''livephoto.jpeg''])
              (Path True [''tmp'', ''livp_a'', ''livephoto.mov''])
              (Path True [''out'', ''clip.livp'']) ''IMG_0001.JPG'' demo_packed_world))
      (Path True [''out'', ''clip.livp''])
     = Some (File (Archive
        [(\<lparr>filename = ''IMG_0001.JPG.jpeg'', date_time = (1980, 1, 1, 0, 0, 0),
            compress_type = 0, flag_bits = 0, create_system = 0, create_version = 0,
            extract_version = 20, external_attr = 25165824, file_size = 4\<rparr>, ''JPEG''),
         (\<lparr>filename = ''IMG_0001.JPG.mov'', date_time = (2023, 11, 14, 22, 13, 21),
            compress_type = 0, flag_bits = 0, create_system = 0, create_version = 0,
            extract_version = 20, external_attr = 25165824, file_size = 3\<rparr>, ''MOV'')]))"
  by (rule demo_pack(2))

section \<open>C5: the output name on a collision\<close>



section \<open>C6: the audio probe\<close>

text \<open>
  C6, as amended. Whenever the probe process is started and exits, \<open>has_audio\<close> returns
  without an error: false when the exit status is nonzero, and otherwise true exactly when
  the stripped standard output is not empty. (The one error it passes on is that of a
  process that cannot be started.)
\<close>

theorem has_audio_when_probe_runs:
  assumes "popen e [ffprobe_path, ''-v'', ''error'', ''-select_streams'', ''a'',
                    ''-show_entries'', ''stream=index'', ''-of'', ''csv=p=0'', str_path src] w
             = Inr (result, fs')"
  shows "fst (has_audio e ffprobe_path src w)
           = Inr (returncode result = 0 \<and> strip (stdout result) \<noteq> [])"
  using assms by (simp add: has_audio_cases)

text \<open>
  The probe of the concrete environment reports a stream index: the answer is true.
\<close>

theorem has_audio_when_probe_runs_witness:
  "popen (demo_env (\<lambda>c. False))
     [''ffprobe'', ''-v'', ''error'', ''-select_streams'', ''a'', ''-show_entries'',
      ''stream=index'', ''-of'', ''csv=p=0'', str_path (Path True [''in'', ''video.mp4''])]
     demo_world
     = Inr (\<lparr>returncode = 0, stdout = ''0 '', stderr = []\<rparr>, fs demo_world)
   \<and> fst (has_audio (demo_env (\<lambda>c. False)) ''ffprobe'' (Path True [''in'', ''video.mp4''])
            demo_world) = Inr True"
proof -
  have h: "popen (demo_env (\<lambda>c. False))
     [''ffprobe'', ''-v'', ''error'', ''-select_streams'', ''a'', ''-show_entries'',
      ''stream=index'', ''-of'', ''csv=p=0'', str_path (Path True [''in'', ''video.mp4''])]
     demo_world
     = Inr (\<lparr>returncode = 0, stdout = ''0 '', stderr = []\<rparr>, fs demo_world)"
    by (simp add: demo_popen_def)
  from has_audio_when_probe_runs [OF h] h show ?thesis
    by (simp add: strip_def is_space_def)
qed

text \<open>
  C6 as stated fails: a probe executable that does not exist makes \<open>subprocess.run\<close>
  raise, nothing in \<open>has_audio\<close> catches it, and the error reaches the caller.
\<close>

theorem has_audio_propagates_counterexample:
  "fst (has_audio (demo_env (\<lambda>c. False)) ''/opt/missing/ffprobe''
          (Path True [''in'', ''video.mp4'']) demo_world)
     = Inl (OSError ''No such file or directory'')"
  by (simp add: has_audio_cases demo_popen_def)

section \<open>C7: entry timestamps\<close>



section \<open>C8: writing the metadata\<close>

text \<open>
  C8. \<open>write_metadata\<close> runs the metadata tool on the video first and then on the image,
  each time with \<open>-overwrite_original\<close>. When the video write is started and exits
  nonzero, the operation fails with \<open>exiftool video failed\<close>, that command is the only one
  run, and the file system is as that process left it: no write of the image is attempted.
  When the video write exits with zero, exactly the two commands are run in this order, and
  a nonzero exit of the image write fails the operation with \<open>exiftool image failed\<close>.
\<close>

theorem write_metadata_two_writes:
  fixes e exiftool_path image_path video_path content_id w
  defines "vcmd \<equiv> [exiftool_path, ''-m'', ''-overwrite_original'',
                    ''-QuickTime:ContentIdentifier='' @ content_id,
                    ''-QuickTime:LivePhoto=1'', ''-QuickTime:LivePhotoAuto=1'',
                    str_path video_path]"
      and "icmd \<equiv> [exiftool_path, ''-m'', ''-overwrite_original'',
                    ''-Apple:ContentIdentifier='' @ content_id,
                    ''-XMP:AssetIdentifier='' @ content_id, str_path image_path]"
      and "r \<equiv> write_metadata e exiftool_path image_path video_path content_id w"
  assumes "popen e vcmd w = Inr (rv, fsv)"
  shows "(returncode rv \<noteq> 0 \<longrightarrow>
            r = (Inl (RuntimeError (''exiftool video failed: ''
                        @ strip (if stderr rv \<noteq> [] then stderr rv else stdout rv))),
                 w\<lparr>invoked := invoked w @ [vcmd], fs := fsv\<rparr>))
       \<and> (returncode rv = 0 \<longrightarrow>
            invoked (snd r) = invoked w @ [vcmd, icmd]
            \<and> (\<forall>ri fsi. popen e icmd (w\<lparr>invoked := invoked w @ [vcmd], fs := fsv\<rparr>)
                           = Inr (ri, fsi) \<longrightarrow>
                  r = (if returncode ri \<noteq> 0
                       then Inl (RuntimeError (''exiftool image failed: ''
                              @ strip (if stderr ri \<noteq> [] then stderr ri else stdout ri)))
                       else Inr (),
                       w\<lparr>invoked := invoked w @ [vcmd, icmd], fs := fsi\<rparr>)))"
  using assms(4)
  unfolding r_def write_metadata_def vcmd_def icmd_def
  by (simp add: run_cmd_cases split: sum.splits prod.splits)

text \<open>
  Three runs in the concrete environment: the video write exits with status 1; both
  writes succeed; the image write exits with status 1.
\<close>

theorem write_metadata_two_writes_witness:
  "fst (write_metadata (demo_env (\<lambda>c. ''-QuickTime:LivePhoto=1'' \<in> set c)) ''exiftool''
          (Path True [''tmp'', ''livp_a'', ''livephoto.jpeg''])
          (Path True [''tmp'', ''livp_a'', ''livephoto.mov'']) ''ID'' demo_world)
     = Inl (RuntimeError ''exiftool video failed: boom'')
   \<and> invoked (snd (write_metadata (demo_env (\<lambda>c. ''-QuickTime:LivePhoto=1'' \<in> set c))
          ''exiftool'' (Path True [''tmp'', ''livp_a'', ''livephoto.jpeg''])
          (Path True [''tmp'', ''livp_a'', ''livephoto.mov'']) ''ID'' demo_world))
     = [[''exiftool'', ''-m'', ''-overwrite_original'', ''-QuickTime:ContentIdentifier=ID'',
         ''-QuickTime:LivePhoto=1'', ''-QuickTime:LivePhotoAuto=1'',
         ''/tmp/livp_a/livephoto.mov'']]
   \<and> fs (snd (write_metadata (demo_env (\<lambda>c. ''-QuickTime:LivePhoto=1'' \<in> set c))
          ''exiftool'' (Path True [''tmp'', ''livp_a'', ''livephoto.jpeg''])
          (Path True [''tmp'', ''livp_a'', ''livephoto.mov'']) ''ID'' demo_world))
     = fs demo_world
   \<and> fst (write_metadata (demo_env (\<lambda>c. False)) ''exiftool''
          (Path True [''tmp'', ''livp_a'', ''livephoto.jpeg''])
          (Path True [''tmp'', ''livp_a'', ''livephoto.mov'']) ''ID'' demo_world)
     = Inr ()
   \<and> invoked (snd (write_metadata (demo_env (\<lambda>c. False)) ''exiftool''
          (Path True [''tmp'', ''livp_a'', ''livephoto.jpeg''])
          (Path True [''tmp'', ''livp_a'', ''livephoto.mov'']) ''ID'' demo_world))
     = [[''exiftool'', ''-m'', ''-overwrite_original'', ''-QuickTime:ContentIdentifier=ID'',
         ''-QuickTime:LivePhoto=1'', ''-QuickTime:LivePhotoAuto=1'',
         ''/tmp/livp_a/livephoto.mov''],
        [''exiftool'', ''-m'', ''-overwrite_original'', ''-Apple:ContentIdentifier=ID'',
         ''-XMP:AssetIdentifier=ID'', ''/tmp/livp_a/livephoto.jpeg'']]
   \<and> fst (write_metadata (demo_env (\<lambda>c. ''-XMP:AssetIdentifier=ID'' \<in> set c)) ''exiftool''
          (Path True [''tmp'', ''livp_a'', ''livephoto.jpeg''])
          (Path True [''tmp'', ''livp_a'', ''livephoto.mov'']) ''ID'' demo_world)
     = Inl (RuntimeError ''exiftool image failed: boom'')"
proof -
  let ?jpeg = "Path True [''tmp'', ''livp_a'', ''livephoto.jpeg'']"
  let ?mov = "Path True [''tmp'', ''livp_a'', ''livephoto.mov'']"
  let ?v = "[''exiftool'', ''-m'', ''-overwrite_original'',
             ''-QuickTime:ContentIdentifier='' @ ''ID'',
             ''-QuickTime:LivePhoto=1'', ''-QuickTime:LivePhotoAuto=1'', str_path ?mov]"
  let ?i = "[''exiftool'', ''-m'', ''-overwrite_original'',
             ''-Apple:ContentIdentifier='' @ ''ID'',
             ''-XMP:AssetIdentifier='' @ ''ID'', str_path ?jpeg]"
  let ?w1 = "demo_world\<lparr>invoked := invoked demo_world @ [?v], fs := fs demo_world\<rparr>"
  let ?Ev = "demo_env (\<lambda>c. ''-QuickTime:LivePhoto=1'' \<in> set c)"
  let ?Ei = "demo_env (\<lambda>c. ''-XMP:AssetIdentifier=ID'' \<in> set c)"
  let ?E = "demo_env (\<lambda>c. False)"
  have bad: "popen ?Ev ?v demo_world
               = Inr (\<lparr>returncode = 1, stdout = [], stderr = ''boom ''\<rparr>, fs demo_world)"
    by (simp add: demo_popen_def)
  have ok: "popen ?E ?v demo_world
               = Inr (\<lparr>returncode = 0, stdout = [], stderr = []\<rparr>, fs demo_world)"
    by (simp add: demo_popen_def)
  have ok2: "popen ?E ?i ?w1
               = Inr (\<lparr>returncode = 0, stdout = [], stderr = []\<rparr>, fs demo_world)"
    by (simp add: demo_popen_def)
  have oki: "popen ?Ei ?v demo_world
               = Inr (\<lparr>returncode = 0, stdout = [], stderr = []\<rparr>, fs demo_world)"
    by (simp add: demo_popen_def)
  have badi: "popen ?Ei ?i ?w1
               = Inr (\<lparr>returncode = 1, stdout = [], stderr = ''boom ''\<rparr>, fs demo_world)"
    by (simp add: demo_popen_def)
  from write_metadata_two_writes [OF bad] have
    "write_metadata ?Ev ''exiftool'' ?jpeg ?mov ''ID'' demo_world
     = (Inl (RuntimeError (''exiftool video failed: '' @ strip ''boom '')), ?w1)"
    by simp
  moreover from write_metadata_two_writes [OF ok] ok2 have
    "write_metadata ?E ''exiftool'' ?jpeg ?mov ''ID'' demo_world
     = (Inr (), demo_world\<lparr>invoked := invoked demo_world @ [?v, ?i], fs := fs demo_world\<rparr>)"
    by simp
  moreover from write_metadata_two_writes [OF oki] badi have
    "write_metadata ?Ei ''exiftool'' ?jpeg ?mov ''ID'' demo_world
     = (Inl (RuntimeError (''exiftool image failed: '' @ strip ''boom '')),
        demo_world\<lparr>invoked := invoked demo_world @ [?v, ?i], fs := fs demo_world\<rparr>)"
    by simp
  ultimately show ?thesis
    by (simp add: demo_strip demo_world_def)
qed

section \<open>C9: the batch loop\<close>

text \<open>
  C9. When the files before \<open>src\<close> in the list are processed without failure and
  \<open>build_livp\<close> fails on \<open>src\<close>, the loop prints the failure of \<open>src\<close> and returns 1.
  The result does not depend on the files after \<open>src\<close>: none of them is processed.
\<close>

theorem main_loop_first_failure_aborts:
  assumes "fst (main_loop e c idx done_before w) = 0"
      and "build_livp e (s_ffmpeg_path c) (s_ffprobe_path c) (s_exiftool_path c) src
             (s_output_dir c) (idx + int (length done_before)) (s_cover_time c)
             (s_max_duration c) (s_fps c) (s_max_width c) (s_max_height c)
             (print_line (''Processing: '' @ name_of src)
                (snd (main_loop e c idx done_before w)))
           = (Inl exc, w2)"
  shows "main_loop e c idx (done_before @ src # later) w
           = (1, print_line (''Failed: '' @ name_of src @ '' -> '' @ str_exn exc) w2)"
  using assms
proof (induction done_before arbitrary: idx w)
  case Nil
  then show ?case by simp
next
  case (Cons a rest)
  let ?b = "build_livp e (s_ffmpeg_path c) (s_ffprobe_path c) (s_exiftool_path c) a
             (s_output_dir c) idx (s_cover_time c) (s_max_duration c) (s_fps c)
             (s_max_width c) (s_max_height c) (print_line (''Processing: '' @ name_of a) w)"
  obtain r wa where b: "?b = (r, wa)" by (cases ?b)
  show ?case
  proof (cases r)
    case (Inl err)
    with b Cons.prems(1) show ?thesis by (simp add: Let_def)
  next
    case (Inr out_path)
    let ?w' = "print_line (''Output: '' @ name_of out_path) wa"
    from b Inr have step: "\<And>xs. main_loop e c idx (a # xs) w = main_loop e c (idx + 1) xs ?w'"
      by (simp add: Let_def)
    from Cons.prems(1) have p1: "fst (main_loop e c (idx + 1) rest ?w') = 0"
      by (simp only: step)
    have ix: "idx + 1 + int (length rest) = idx + int (length (a # rest))" by simp
    from Cons.prems(2) have p2:
      "build_livp e (s_ffmpeg_path c) (s_ffprobe_path c) (s_exiftool_path c) src
             (s_output_dir c) (idx + 1 + int (length rest)) (s_cover_time c)
             (s_max_duration c) (s_fps c) (s_max_width c) (s_max_height c)
             (print_line (''Processing: '' @ name_of src)
                (snd (main_loop e c (idx + 1) rest ?w')))
           = (Inl exc, w2)"
      by (simp only: step ix)
    from Cons.IH [OF p1 p2] show ?thesis
      by (simp only: step append_Cons)
  qed
qed

text \<open>
  The scenario of the specification: three files, the encoder fails on the second. The
  first is reported as done, the second as failed, the third is never mentioned, and the
  status is 1.
\<close>

theorem main_loop_first_failure_aborts_witness:
  "fst (main_loop (demo_env (\<lambda>c. hd c = ''ffmpeg'' \<and> ''/in/b.mp4'' \<in> set c)) demo_settings 1
          [Path True [''in'', ''a.mp4'']] demo_world) = 0
   \<and> fst (main_loop (demo_env (\<lambda>c. hd c = ''ffmpeg'' \<and> ''/in/b.mp4'' \<in> set c)) demo_settings 1
          [Path True [''in'', ''a.mp4''], Path True [''in'', ''b.mp4''],
           Path True [''in'', ''c.mp4'']] demo_world) = 1
   \<and> printed (snd (main_loop (demo_env (\<lambda>c. hd c = ''ffmpeg'' \<and> ''/in/b.mp4'' \<in> set c))
          demo_settings 1
          [Path True [''in'', ''a.mp4''], Path True [''in'', ''b.mp4''],
           Path True [''in'', ''c.mp4'']] demo_world))
       = [''Processing: a.mp4'', ''Output: a.livp'', ''Processing: b.mp4'',
          ''Failed: b.mp4 -> ffmpeg video failed: boom'']"
proof -
  let ?E = "demo_env (\<lambda>c. hd c = ''ffmpeg'' \<and> ''/in/b.mp4'' \<in> set c)"
  let ?A = "Path True [''in'', ''a.mp4'']"
  let ?B = "Path True [''in'', ''b.mp4'']"
  let ?C = "Path True [''in'', ''c.mp4'']"
  let ?W1 = "snd (main_loop ?E demo_settings 1 [?A] demo_world)"
  let ?b = "build_livp ?E (s_ffmpeg_path demo_settings) (s_ffprobe_path demo_settings)
              (s_exiftool_path demo_settings) ?B (s_output_dir demo_settings)
              (1 + int (length [?A])) (s_cover_time demo_settings)
              (s_max_duration demo_settings) (s_fps demo_settings)
              (s_max_width demo_settings) (s_max_height demo_settings)
              (print_line (''Processing: '' @ name_of ?B) ?W1)"
  have h1: "fst (main_loop ?E demo_settings 1 [?A] demo_world) = 0"
    by (simp add: demo_batch_eval)
  have f: "fst ?b = Inl (RuntimeError ''ffmpeg video failed: boom'')"
    and pr: "printed (snd ?b) = [''Processing: a.mp4'', ''Output: a.livp'', ''Processing: b.mp4'']"
    by (simp_all add: demo_batch_eval)
  then have h2: "?b = (Inl (RuntimeError ''ffmpeg video failed: boom''), snd ?b)"
    by (cases ?b) simp
  from main_loop_first_failure_aborts [OF h1 h2, of "[?C]"]
  have "main_loop ?E demo_settings 1 [?A, ?B, ?C] demo_world
          = (1, print_line (''Failed: '' @ name_of ?B @ '' -> ''
                   @ str_exn (RuntimeError ''ffmpeg video failed: boom'')) (snd ?b))"
    by simp
  then have "fst (main_loop ?E demo_settings 1 [?A, ?B, ?C] demo_world) = 1"
    and "printed (snd (main_loop ?E demo_settings 1 [?A, ?B, ?C] demo_world))
           = [''Processing: a.mp4'', ''Output: a.livp'', ''Processing: b.mp4'',
              ''Failed: b.mp4 -> ffmpeg video failed: boom'']"
    using pr by (simp_all add: print_line_def)
  with h1 show ?thesis by blast
qed

section \<open>C10: the suffixed name is not checked\<close>

text \<open>
  C10. When both \<open><stem>.livp\<close> and \<open><stem>_<index>.livp\<close> exist and the call
  succeeds, the returned path is the suffixed one and the file there is now the new archive
  of two entries, \<open>IMG_<index>.JPG.jpeg\<close> and \<open>IMG_<index>.JPG.mov\<close>. (The temporary
  directory is taken not to contain the output path: leaving it removes all below it.)
\<close>

theorem build_livp_overwrites_suffixed:
  fixes e ffmpeg_path ffprobe_path exiftool_path src out_dir index cover_time max_duration
    fps max_width max_height w
  defines "plain \<equiv> joinpath out_dir (stem src @ ''.livp'')"
      and "suffixed \<equiv> joinpath out_dir (stem src @ ''_'' @ fmt_04d index @ ''.livp'')"
      and "res \<equiv> build_livp e ffmpeg_path ffprobe_path exiftool_path src out_dir index
                    cover_time max_duration fps max_width max_height w"
  assumes both: "path_exists w plain" "path_exists w suffixed"
      and ok: "fst res = Inr p"
      and tmp: "mkdtemp e (w\<lparr>rand_used := rand_used w + 1\<rparr>) = Inr tmp"
               "\<not> is_under tmp suffixed"
  shows "p = suffixed
       \<and> (\<exists>z1 d1 z2 d2.
             fs (snd res) suffixed = Some (File (Archive [(z1, d1), (z2, d2)]))
           \<and> filename z1 = ''IMG_'' @ fmt_04d index @ ''.JPG.jpeg''
           \<and> filename z2 = ''IMG_'' @ fmt_04d index @ ''.JPG.mov'')"
proof -
  let ?w0 = "w\<lparr>rand_used := rand_used w + 1\<rparr>"
  let ?mov = "joinpath tmp ''livephoto.mov''"
  let ?jpeg = "joinpath tmp ''livephoto.jpeg''"
  let ?w1 = "?w0\<lparr>fs := (fs ?w0)(tmp \<mapsto> Dir)\<rparr>"
  let ?cid = "upper (str_uuid (uuid4 (urandom16 e (rand_used w))))"
  let ?base = "''IMG_'' @ fmt_04d index @ ''.JPG''"
  let ?out = "if path_exists w (joinpath out_dir (stem src @ ''.livp''))
              then joinpath out_dir (stem src @ ''_'' @ fmt_04d index @ ''.livp'')
              else joinpath out_dir (stem src @ ''.livp'')"
  have out: "?out = suffixed"
    using both(1) by (simp add: plain_def suffixed_def)
  let ?P = "and_then
             (build_video e ffmpeg_path ffprobe_path src ?mov max_duration fps max_width
                max_height)
             (\<lambda>_. and_then (extract_still e ffmpeg_path ?mov ?jpeg cover_time)
               (\<lambda>_. and_then (write_metadata e exiftool_path ?jpeg ?mov ?cid)
                 (\<lambda>_. pack_livp e ?jpeg ?mov ?out ?base)))
             ?w1"
  obtain r w2 where P: "?P = (r, w2)" by (cases ?P)
  from build_livp_split(2) [OF tmp(1) P]
  have res: "res = (case r of Inl err \<Rightarrow> Inl err | Inr u \<Rightarrow> Inr ?out, cleanup tmp w2)"
    by (simp add: res_def)
  with ok obtain u where r: "r = Inr u" and p: "p = ?out"
    by (cases r) auto
  from and_then_Inr [OF P [unfolded r]] obtain wa where
    a: "and_then (extract_still e ffmpeg_path ?mov ?jpeg cover_time)
               (\<lambda>_. and_then (write_metadata e exiftool_path ?jpeg ?mov ?cid)
                 (\<lambda>_. pack_livp e ?jpeg ?mov ?out ?base)) wa = (Inr u, w2)"
    by blast
  from and_then_Inr [OF a] obtain wb where
    b: "and_then (write_metadata e exiftool_path ?jpeg ?mov ?cid)
                 (\<lambda>_. pack_livp e ?jpeg ?mov ?out ?base) wb = (Inr u, w2)"
    by blast
  from and_then_Inr [OF b] obtain wc where
    c: "pack_livp e ?jpeg ?mov ?out ?base wc = (Inr u, w2)"
    by blast
  from pack_livp_Inr [OF c] obtain z1 d1 z2 d2 where
    w2: "w2 = wc\<lparr>fs := (fs wc)(?out \<mapsto> File (Archive [(z1, d1), (z2, d2)]))\<rparr>"
    and n1: "filename z1 = takeWhile (\<lambda>c. c \<noteq> CHR 0x00) (?base @ ''.jpeg'')"
    and n2: "filename z2 = takeWhile (\<lambda>c. c \<noteq> CHR 0x00) (?base @ ''.mov'')"
    by blast
  have "fs (snd res) suffixed = Some (File (Archive [(z1, d1), (z2, d2)]))"
    unfolding res using tmp(2) w2 out by (simp add: cleanup_def)
  moreover have "filename z1 = ''IMG_'' @ fmt_04d index @ ''.JPG.jpeg''"
    using n1 internal_base_no_null [of index "''.jpeg''"] by simp
  moreover have "filename z2 = ''IMG_'' @ fmt_04d index @ ''.JPG.mov''"
    using n2 internal_base_no_null [of index "''.mov''"] by simp
  ultimately show ?thesis using p out by blast
qed

text \<open>
  In the run of C5 \<open>/out/video_0003.livp\<close> existed too, with other content; it is
  replaced by the new archive.
\<close>

theorem build_livp_overwrites_suffixed_witness:
  "path_exists demo_world (Path True [''out'', ''video.livp''])
   \<and> fs demo_world (Path True [''out'', ''video_0003.livp'']) = Some (File (Raw ''OLDER''))
   \<and> fst (build_livp (demo_env (\<lambda>c. False)) ''ffmpeg'' ''ffprobe'' ''exiftool''
          (Path True [''in'', ''video.mp4'']) (Path True [''out'']) 3
          (Finite False 4503599627370496 (- 53)) (Finite False 6530219459687219 (- 51))
          30 3840 2160 demo_world)
       = Inr (Path True [''out'', ''video_0003.livp''])
   \<and> (\<exists>z1 d1 z2 d2.
         fs (snd (build_livp (demo_env (\<lambda>c. False)) ''ffmpeg'' ''ffprobe'' ''exiftool''
                    (Path True [''in'', ''video.mp4'']) (Path True [''out'']) 3
                    (Finite False 4503599627370496 (- 53))
                    (Finite False 6530219459687219 (- 51)) 30 3840 2160 demo_world))
            (Path True [''out'', ''video_0003.livp''])
           = Some (File (Archive [(z1, d1), (z2, d2)]))
       \<and> filename z1 = ''IMG_0003.JPG.jpeg'' \<and> filename z2 = ''IMG_0003.JPG.mov'')"
proof -
  let ?src = "Path True [''in'', ''video.mp4'']"
  let ?out = "Path True [''out'']"
  have plain: "joinpath ?out (stem ?src @ ''.livp'') = Path True [''out'', ''video.livp'']"
    and suff: "joinpath ?out (stem ?src @ ''_'' @ fmt_04d 3 @ ''.livp'')
                 = Path True [''out'', ''video_0003.livp'']"
    by (simp_all add: demo_names)
  have e1: "path_exists demo_world (joinpath ?out (stem ?src @ ''.livp''))"
    and e2: "path_exists demo_world (joinpath ?out (stem ?src @ ''_'' @ fmt_04d 3 @ ''.livp''))"
    and old: "fs demo_world (Path True [''out'', ''video_0003.livp'']) = Some (File (Raw ''OLDER''))"
    unfolding plain suff by (simp_all add: path_exists_def demo_world_def)
  have t1: "mkdtemp (demo_env (\<lambda>c. False)) (demo_world\<lparr>rand_used := rand_used demo_world + 1\<rparr>)
              = Inr (Path True [''tmp'', ''livp_a''])"
    by simp
  have t2: "\<not> is_under (Path True [''tmp'', ''livp_a''])
                (joinpath ?out (stem ?src @ ''_'' @ fmt_04d 3 @ ''.livp''))"
    unfolding suff by simp
  from build_livp_overwrites_suffixed [OF e1 e2 demo_build(1) t1 t2]
  have "\<exists>z1 d1 z2 d2.
         fs (snd (build_livp (demo_env (\<lambda>c. False)) ''ffmpeg'' ''ffprobe'' ''exiftool''
                    ?src ?out 3 (Finite False 4503599627370496 (- 53))
                    (Finite False 6530219459687219 (- 51)) 30 3840 2160 demo_world))
            (Path True [''out'', ''video_0003.livp''])
           = Some (File (Archive [(z1, d1), (z2, d2)]))
       \<and> filename z1 = ''IMG_0003.JPG.jpeg'' \<and> filename z2 = ''IMG_0003.JPG.mov''"
    unfolding suff by (simp add: demo_names)
  with e1 old show ?thesis
    unfolding plain by (simp add: demo_build(1))
qed

end
